theory Spec2Isabelle
  imports
    Complex_Main
    "HOL-Library.Signed_Division"
    "HOL-Library.Char_ord"
    "HOL-Library.List_Lexorder"
    "HOL-Library.AList"
    "HOL-Library.Multiset"
begin

section \<open>JavaScript numbers and strings\<close>

text \<open>
  The tracker works on JavaScript numbers that hold integers (millisecond clock readings
  and whole seconds); they are modelled as \<open>int\<close>. \<open>Math.floor(a / b)\<close> on such
  numbers is \<open>a div b\<close> (which rounds down) and \<open>a % b\<close> is the remainder that takes the
  sign of the dividend, \<open>a smod b\<close>. Strings are byte strings in UTF-8, and a number in a
  template string prints in decimal.
\<close>

definition digitChar :: "nat \<Rightarrow> char" where
  "digitChar d = ''0123456789'' ! d"

fun natToString :: "nat \<Rightarrow> string" where
  "natToString n = (if n < 10 then [digitChar n] else natToString (n div 10) @ [digitChar (n mod 10)])"

declare natToString.simps [simp del]

definition numberToString :: "int \<Rightarrow> string" where
  "numberToString k = (if k < 0 then CHR ''-'' # natToString (nat (- k)) else natToString (nat k))"

subsection \<open>formatDuration\<close>

text \<open>The unit labels of the source: U+5C0F U+65F6, U+5206 U+949F and U+79D2.\<close>

definition unitHours :: string where
  "unitHours = [CHR 0xE5, CHR 0xB0, CHR 0x8F, CHR 0xE6, CHR 0x97, CHR 0xB6]"

definition unitMinutes :: string where
  "unitMinutes = [CHR 0xE5, CHR 0x88, CHR 0x86, CHR 0xE9, CHR 0x92, CHR 0x9F]"

definition unitSeconds :: string where
  "unitSeconds = [CHR 0xE7, CHR 0xA7, CHR 0x92]"

definition formatDuration :: "int \<Rightarrow> string" where
  "formatDuration seconds =
     (let hours = seconds div 3600;
          minutes = (seconds smod 3600) div 60;
          secs = seconds smod 60
      in if hours > 0 then numberToString hours @ unitHours @ numberToString minutes @ unitMinutes
         else if minutes > 0 then numberToString minutes @ unitMinutes @ numberToString secs @ unitSeconds
         else numberToString secs @ unitSeconds)"

section \<open>The activity tracker\<close>

subsection \<open>Date keys\<close>

text \<open>
  \<open>getDateKey\<close> is \<open>new Date(timestamp).toISOString().split('T')[0]\<close>: the UTC calendar
  date of a millisecond time value, written year-month-day. The time values it is applied to are
  readings of \<open>Date.now()\<close>, which lie in the range where \<open>toISOString\<close> does not throw.
\<close>

definition pad :: "nat \<Rightarrow> nat \<Rightarrow> string" where
  "pad w n = replicate (w - length (natToString n)) CHR ''0'' @ natToString n"

definition civilFromDays :: "int \<Rightarrow> int \<times> int \<times> int" where
  "civilFromDays days =
     (let z = days + 719468;
          era = z div 146097;
          doe = z mod 146097;
          yoe = (doe - doe div 1460 + doe div 36524 - doe div 146096) div 365;
          doy = doe - (365 * yoe + yoe div 4 - yoe div 100);
          mp = (5 * doy + 2) div 153;
          d = doy - (153 * mp + 2) div 5 + 1;
          m = (if mp < 10 then mp + 3 else mp - 9);
          y = yoe + era * 400
      in (if m \<le> 2 then y + 1 else y, m, d))"

definition isoYear :: "int \<Rightarrow> string" where
  "isoYear y =
     (if 0 \<le> y \<and> y \<le> 9999 then pad 4 (nat y)
      else (if y < 0 then ''-'' else ''+'') @ pad 6 (nat \<bar>y\<bar>))"

definition getDateKey :: "int \<Rightarrow> string" where
  "getDateKey timestamp =
     (case civilFromDays (timestamp div 86400000) of
        (y, m, d) \<Rightarrow> isoYear y @ ''-'' @ pad 2 (nat m) @ ''-'' @ pad 2 (nat d))"

subsection \<open>Data\<close>

record EditSession =
  startTime :: int
  endTime :: int
  languageId :: string
  fileName :: string
  durationSeconds :: int

text \<open>
  \<open>languageStats\<close> is a JavaScript object used as a dictionary: an association list in
  insertion order, which is the order \<open>Object.entries\<close> enumerates it in. Language identifiers
  are taken not to be names of \<open>Object.prototype\<close> members.
\<close>

record DailyEditStats =
  date :: string
  totalSeconds :: int
  languageStats :: "(string \<times> int) list"
  sessions :: "EditSession list"

text \<open>The two fields of a \<open>vscode.TextDocument\<close> that the tracker reads.\<close>

record TextDocument =
  docLanguageId :: string
  docFileName :: string

text \<open>
  The tracker's fields, together with the memento \<open>context.globalState\<close> it owns. A
  \<open>DailyEditStats\<close> is a mutable object, and \<open>globalState.get\<close> hands out the object the
  memento holds, so the objects live in a store (\<open>objects\<close>, addressed by position) and the
  memento maps storage keys to addresses. \<open>Date.now()\<close> is the argument \<open>now\<close> of each
  operation; one operation reads one clock value.
\<close>

record ActivityTracker =
  objects :: "DailyEditStats list"
  globalState :: "(string \<times> nat) list"
  isTracking :: bool
  currentLanguage :: string
  currentFileName :: string
  sessionStartTime :: int
  lastActivityTime :: int

definition IDLE_TIMEOUT_MS :: int where
  "IDLE_TIMEOUT_MS = 5 * 60 * 1000"

definition MIN_SESSION_SECONDS :: int where
  "MIN_SESSION_SECONDS = 10"

definition newTracker :: ActivityTracker where
  "newTracker = \<lparr>objects = [], globalState = [], isTracking = False, currentLanguage = [],
     currentFileName = [], sessionStartTime = 0, lastActivityTime = 0\<rparr>"

subsection \<open>The store of daily statistics\<close>

definition storageKey :: "string \<Rightarrow> string" where
  "storageKey dateKey = ''editStats_'' @ dateKey"

definition alloc :: "DailyEditStats \<Rightarrow> ActivityTracker \<Rightarrow> nat \<times> ActivityTracker" where
  "alloc s tr = (length (objects tr), tr\<lparr>objects := objects tr @ [s]\<rparr>)"

definition deref :: "ActivityTracker \<Rightarrow> nat \<Rightarrow> DailyEditStats" where
  "deref tr a = objects tr ! a"

definition modify :: "nat \<Rightarrow> (DailyEditStats \<Rightarrow> DailyEditStats) \<Rightarrow> ActivityTracker \<Rightarrow> ActivityTracker" where
  "modify a f tr = tr\<lparr>objects := (objects tr)[a := f (objects tr ! a)]\<rparr>"

definition getDailyStats :: "string \<Rightarrow> ActivityTracker \<Rightarrow> nat \<times> ActivityTracker" where
  "getDailyStats dateKey tr =
     (case map_of (globalState tr) (storageKey dateKey) of
        Some stored \<Rightarrow> (stored, tr)
      | None \<Rightarrow> alloc \<lparr>date = dateKey, totalSeconds = 0, languageStats = [], sessions = []\<rparr> tr)"

definition saveDailyStats :: "string \<Rightarrow> nat \<Rightarrow> ActivityTracker \<Rightarrow> ActivityTracker" where
  "saveDailyStats dateKey stats tr =
     tr\<lparr>globalState := AList.update (storageKey dateKey) stats (globalState tr)\<rparr>"

text \<open>
  \<open>addLanguageSeconds\<close> is the pair of statements
  \<open>if (!o[k]) o[k] = 0; o[k] += n\<close>: a missing entry and an entry \<open>0\<close> are both falsy.
\<close>

definition addLanguageSeconds :: "string \<Rightarrow> int \<Rightarrow> (string \<times> int) list \<Rightarrow> (string \<times> int) list" where
  "addLanguageSeconds k n ls =
     (let ls1 = (if map_of ls k = None \<or> map_of ls k = Some 0 then AList.update k 0 ls else ls)
      in AList.update k (the (map_of ls1 k) + n) ls1)"

text \<open>
  \<open>saveSession\<close> changes the aggregate it got from \<open>getDailyStats\<close> in place and then stores
  it. The notification of the listeners of \<open>onStatsUpdated\<close> and the line written to the console
  are left out.
\<close>

definition saveSession :: "EditSession \<Rightarrow> ActivityTracker \<Rightarrow> ActivityTracker" where
  "saveSession session tr =
     (let dateKey = getDateKey (startTime session) in
      case getDailyStats dateKey tr of (stats, tr1) \<Rightarrow>
        let tr2 = modify stats (\<lambda>s. s\<lparr>totalSeconds := totalSeconds s + durationSeconds session\<rparr>) tr1;
            tr3 = modify stats (\<lambda>s. s\<lparr>languageStats :=
                    addLanguageSeconds (languageId session) (durationSeconds session) (languageStats s)\<rparr>) tr2;
            tr4 = modify stats (\<lambda>s. s\<lparr>sessions := sessions s @ [session]\<rparr>) tr3
        in saveDailyStats dateKey stats tr4)"

subsection \<open>The session state machine\<close>

definition startSession :: "int \<Rightarrow> TextDocument \<Rightarrow> ActivityTracker \<Rightarrow> ActivityTracker" where
  "startSession now document tr =
     tr\<lparr>isTracking := True, currentLanguage := docLanguageId document,
        currentFileName := docFileName document, sessionStartTime := now, lastActivityTime := now\<rparr>"

definition endCurrentSession :: "ActivityTracker \<Rightarrow> ActivityTracker" where
  "endCurrentSession tr =
     (if \<not> isTracking tr then tr
      else
        let endTime = lastActivityTime tr;
            durationSeconds = (endTime - sessionStartTime tr) div 1000;
            tr1 = (if durationSeconds \<ge> MIN_SESSION_SECONDS
                   then saveSession \<lparr>startTime = sessionStartTime tr, endTime = endTime,
                          languageId = currentLanguage tr, fileName = currentFileName tr,
                          durationSeconds = durationSeconds\<rparr> tr
                   else tr)
        in tr1\<lparr>isTracking := False, currentLanguage := [], currentFileName := [],
               sessionStartTime := 0\<rparr>)"

definition recordActivity :: "int \<Rightarrow> TextDocument \<Rightarrow> ActivityTracker \<Rightarrow> ActivityTracker" where
  "recordActivity now document tr =
     (if \<not> isTracking tr then startSession now document tr
      else if docLanguageId document \<noteq> currentLanguage tr \<or> docFileName document \<noteq> currentFileName tr
        then startSession now document (endCurrentSession tr)
      else if now - lastActivityTime tr > IDLE_TIMEOUT_MS
        then startSession now document (endCurrentSession tr)
      else tr\<lparr>lastActivityTime := now\<rparr>)"

text \<open>The body of the heartbeat timer, run at clock value \<open>now\<close>.\<close>

definition heartbeat :: "int \<Rightarrow> ActivityTracker \<Rightarrow> ActivityTracker" where
  "heartbeat now tr =
     (if isTracking tr then
        (if now - lastActivityTime tr > IDLE_TIMEOUT_MS then endCurrentSession tr else tr)
      else tr)"

text \<open>A stream of edits of one document, at the clock values of the list.\<close>

primrec recordActivities :: "TextDocument \<Rightarrow> int list \<Rightarrow> ActivityTracker \<Rightarrow> ActivityTracker" where
  "recordActivities document [] tr = tr"
| "recordActivities document (t # ts) tr = recordActivities document ts (recordActivity t document tr)"

text \<open>Every gap between consecutive clock values, starting from \<open>prev\<close>, is within the idle timeout.\<close>

primrec gapsWithin :: "int \<Rightarrow> int list \<Rightarrow> bool" where
  "gapsWithin prev [] = True"
| "gapsWithin prev (t # ts) = (t - prev \<le> IDLE_TIMEOUT_MS \<and> gapsWithin t ts)"

text \<open>All sessions the store holds, day by day in the order of the memento's keys.\<close>

definition storedSessions :: "ActivityTracker \<Rightarrow> EditSession list" where
  "storedSessions tr = concat (map (\<lambda>(k, a). sessions (deref tr a)) (globalState tr))"

text \<open>The part of the tracker that holds the daily statistics.\<close>

definition storeOf :: "ActivityTracker \<Rightarrow> DailyEditStats list \<times> (string \<times> nat) list" where
  "storeOf tr = (objects tr, globalState tr)"

subsection \<open>Consistency of the daily statistics\<close>

text \<open>What the three assignments of \<open>saveSession\<close> do to the aggregate, taken together.\<close>

definition addSession :: "EditSession \<Rightarrow> DailyEditStats \<Rightarrow> DailyEditStats" where
  "addSession session s =
     s\<lparr>totalSeconds := totalSeconds s + durationSeconds session,
       languageStats := addLanguageSeconds (languageId session) (durationSeconds session) (languageStats s),
       sessions := sessions s @ [session]\<rparr>"

text \<open>
  The total of an aggregate is the sum of its per-language seconds and the sum of the durations
  of its sessions.
\<close>

definition consistent :: "DailyEditStats \<Rightarrow> bool" where
  "consistent s \<longleftrightarrow>
     totalSeconds s = sum_list (map snd (languageStats s))
     \<and> totalSeconds s = sum_list (map durationSeconds (sessions s))"

text \<open>Every key of the memento refers to an object of the store, and that object is consistent.\<close>

definition storeConsistent :: "ActivityTracker \<Rightarrow> bool" where
  "storeConsistent tr \<longleftrightarrow>
     (\<forall>(k, a) \<in> set (globalState tr). a < length (objects tr) \<and> consistent (deref tr a))"

primrec saveSessions :: "EditSession list \<Rightarrow> ActivityTracker \<Rightarrow> ActivityTracker" where
  "saveSessions [] tr = tr"
| "saveSessions (s # ss) tr = saveSessions ss (saveSession s tr)"

subsection \<open>Reading today's statistics\<close>

text \<open>
  \<open>getTodayStats\<close> builds a new object from the fields of the stored one (the spread copies
  \<open>languageStats\<close> and \<open>sessions\<close>) and adds the time of the open session to the new object.
\<close>

definition getTodayStats :: "int \<Rightarrow> ActivityTracker \<Rightarrow> nat \<times> ActivityTracker" where
  "getTodayStats now tr =
     (let today = getDateKey now in
      case getDailyStats today tr of (stored, tr1) \<Rightarrow>
      case alloc \<lparr>date = date (deref tr1 stored), totalSeconds = totalSeconds (deref tr1 stored),
                 languageStats = languageStats (deref tr1 stored),
                 sessions = sessions (deref tr1 stored)\<rparr> tr1 of (stats, tr2) \<Rightarrow>
        (stats,
         if isTracking tr2 then
           let currentDuration = (lastActivityTime tr2 - sessionStartTime tr2) div 1000
           in if currentDuration \<ge> MIN_SESSION_SECONDS then
                let tr3 = modify stats (\<lambda>s. s\<lparr>totalSeconds := totalSeconds s + currentDuration\<rparr>) tr2
                in modify stats (\<lambda>s. s\<lparr>languageStats :=
                     addLanguageSeconds (currentLanguage tr3) currentDuration (languageStats s)\<rparr>) tr3
              else tr2
         else tr2))"

text \<open>The aggregate the memento holds for a day, or the zero aggregate for a day it has no key for.\<close>

definition persisted :: "ActivityTracker \<Rightarrow> string \<Rightarrow> DailyEditStats" where
  "persisted tr dateKey =
     (case map_of (globalState tr) (storageKey dateKey) of
        Some a \<Rightarrow> deref tr a
      | None \<Rightarrow> \<lparr>date = dateKey, totalSeconds = 0, languageStats = [], sessions = []\<rparr>)"

text \<open>A caller of the tracker assigns to a field of an aggregate it was handed.\<close>

definition assignTotalSeconds :: "nat \<Rightarrow> int \<Rightarrow> ActivityTracker \<Rightarrow> ActivityTracker" where
  "assignTotalSeconds stats v tr = modify stats (\<lambda>s. s\<lparr>totalSeconds := v\<rparr>) tr"

definition assignLanguageSeconds :: "nat \<Rightarrow> string \<Rightarrow> int \<Rightarrow> ActivityTracker \<Rightarrow> ActivityTracker" where
  "assignLanguageSeconds stats k v tr =
     modify stats (\<lambda>s. s\<lparr>languageStats := AList.update k v (languageStats s)\<rparr>) tr"

definition pushSession :: "nat \<Rightarrow> EditSession \<Rightarrow> ActivityTracker \<Rightarrow> ActivityTracker" where
  "pushSession stats session tr = modify stats (\<lambda>s. s\<lparr>sessions := sessions s @ [session]\<rparr>) tr"

subsection \<open>Stored dates and clearing\<close>

definition startsWith :: "string \<Rightarrow> string \<Rightarrow> bool" where
  "startsWith s p \<longleftrightarrow> take (length p) s = p"

text \<open>\<open>s.replace(p, '')\<close> with a string pattern: the first occurrence of \<open>p\<close> is removed.\<close>

fun replaceWithEmpty :: "string \<Rightarrow> string \<Rightarrow> string" where
  "replaceWithEmpty p [] = []"
| "replaceWithEmpty p (c # cs) =
     (if startsWith (c # cs) p then drop (length p) (c # cs) else c # replaceWithEmpty p cs)"

text \<open>
  \<open>globalState.keys()\<close> lists the keys that have a value, and \<open>update(key, undefined)\<close>
  removes the key. The default \<open>sort()\<close> of strings is the lexicographic order of their code
  units.
\<close>

definition getAllStoredDates :: "ActivityTracker \<Rightarrow> string list" where
  "getAllStoredDates tr =
     sort (map (replaceWithEmpty ''editStats_'')
            (filter (\<lambda>key. startsWith key ''editStats_'') (map fst (globalState tr))))"

definition clearDailyStats :: "string \<Rightarrow> ActivityTracker \<Rightarrow> ActivityTracker" where
  "clearDailyStats dateKey tr = tr\<lparr>globalState := AList.delete (storageKey dateKey) (globalState tr)\<rparr>"

primrec clearDates :: "string list \<Rightarrow> ActivityTracker \<Rightarrow> ActivityTracker" where
  "clearDates [] tr = tr"
| "clearDates (d # ds) tr = clearDates ds (clearDailyStats d tr)"

definition clearAllStats :: "ActivityTracker \<Rightarrow> ActivityTracker" where
  "clearAllStats tr = clearDates (getAllStoredDates tr) tr"

section \<open>Numbers that may be NaN, and sorting with a comparator\<close>

text \<open>
  Hours, percentages and time differences are JavaScript numbers; they are modelled as real
  numbers, with \<open>NaN\<close> added where the code can produce it (the time value of an invalid
  \<open>Date\<close> and what is computed from it).
\<close>

datatype number = NaN | Num real


fun add :: "number \<Rightarrow> number \<Rightarrow> number" where
  "add (Num a) (Num b) = Num (a + b)"
| "add _ _ = NaN"


text \<open>
  \<open>Array.prototype.sort\<close> with a comparator is stable, and a comparator result \<open>NaN\<close> counts as
  \<open>0\<close>. \<open>arraySort\<close> is the stable insertion sort: an element goes before the first element
  that the comparator does not put before it. For a comparator that orders the elements
  consistently this is the result of every conforming engine; the comparators of this program are
  differences of numbers, which are consistent unless one of the numbers is \<open>NaN\<close>, where the
  language leaves the order to the engine.
\<close>

fun notPositive :: "number \<Rightarrow> bool" where
  "notPositive NaN = True"
| "notPositive (Num v) = (v \<le> 0)"

fun insertBy :: "('a \<Rightarrow> 'a \<Rightarrow> number) \<Rightarrow> 'a \<Rightarrow> 'a list \<Rightarrow> 'a list" where
  "insertBy cmp x [] = [x]"
| "insertBy cmp x (y # ys) = (if notPositive (cmp x y) then x # y # ys else y # insertBy cmp x ys)"

definition arraySort :: "('a \<Rightarrow> 'a \<Rightarrow> number) \<Rightarrow> 'a list \<Rightarrow> 'a list" where
  "arraySort cmp xs = foldr (insertBy cmp) xs []"

section \<open>Language shares\<close>

definition LANGUAGE_DISPLAY_NAMES :: "(string \<times> string) list" where
  "LANGUAGE_DISPLAY_NAMES =
     [(''javascript'', ''JavaScript''), (''typescript'', ''TypeScript''),
      (''typescriptreact'', ''TypeScript React''), (''javascriptreact'', ''JavaScript React''),
      (''python'', ''Python''), (''java'', ''Java''), (''csharp'', ''C#''), (''cpp'', ''C++''),
      (''c'', ''C''), (''go'', ''Go''), (''rust'', ''Rust''), (''ruby'', ''Ruby''), (''php'', ''PHP''),
      (''swift'', ''Swift''), (''kotlin'', ''Kotlin''), (''html'', ''HTML''), (''css'', ''CSS''),
      (''scss'', ''SCSS''), (''less'', ''LESS''), (''json'', ''JSON''), (''yaml'', ''YAML''),
      (''xml'', ''XML''), (''markdown'', ''Markdown''), (''sql'', ''SQL''), (''shellscript'', ''Shell''),
      (''powershell'', ''PowerShell''), (''dockerfile'', ''Dockerfile''), (''vue'', ''Vue''),
      (''svelte'', ''Svelte''),
      (''plaintext'', [CHR 0xE7, CHR 0xBA, CHR 0xAF, CHR 0xE6, CHR 0x96, CHR 0x87, CHR 0xE6, CHR 0x9C, CHR 0xAC])]"

definition getLanguageDisplayName :: "string \<Rightarrow> string" where
  "getLanguageDisplayName langId =
     (case map_of LANGUAGE_DISPLAY_NAMES langId of
        Some name \<Rightarrow> (if name = [] then langId else name)
      | None \<Rightarrow> langId)"

record LanguageShare =
  language :: string
  displayName :: string
  seconds :: int
  percentage :: real

definition languageShare :: "int \<Rightarrow> string \<times> int \<Rightarrow> LanguageShare" where
  "languageShare totalSecs entry =
     \<lparr>language = fst entry, displayName = getLanguageDisplayName (fst entry), seconds = snd entry,
      percentage = (real_of_int (snd entry) / real_of_int totalSecs) * 100\<rparr>"

definition bySecondsDescending :: "LanguageShare \<Rightarrow> LanguageShare \<Rightarrow> number" where
  "bySecondsDescending a b = Num (real_of_int (seconds b - seconds a))"

definition getLanguagePercentages :: "DailyEditStats \<Rightarrow> LanguageShare list" where
  "getLanguagePercentages stats =
     (if totalSeconds stats = 0 then []
      else arraySort bySecondsDescending (map (languageShare (totalSeconds stats)) (languageStats stats)))"

section \<open>Work hours from the commit log\<close>

text \<open>
  A \<open>Date\<close> is its time value in milliseconds, or \<open>None\<close> for an invalid date, which is what
  \<open>new Date(commit.date)\<close> yields when the date of the log entry is missing or cannot be parsed.
  The author of a log entry is \<open>None\<close> when the entry has none.
\<close>

record CommitDetail =
  commitDate :: "int option"
  message :: string
  hash :: string


record DayWork =
  day :: string
  firstCommit :: "int option"
  lastCommit :: "int option"
  hours :: number
  commits :: "CommitDetail list"



















section \<open>Properties\<close>

subsection \<open>One session from a burst of edits\<close>

lemma storeOf_simps [simp]:
  "storeOf (tr\<lparr>isTracking := b\<rparr>) = storeOf tr"
  "storeOf (tr\<lparr>currentLanguage := l\<rparr>) = storeOf tr"
  "storeOf (tr\<lparr>currentFileName := f\<rparr>) = storeOf tr"
  "storeOf (tr\<lparr>sessionStartTime := t\<rparr>) = storeOf tr"
  "storeOf (tr\<lparr>lastActivityTime := t\<rparr>) = storeOf tr"
  by (simp_all add: storeOf_def)

lemma saveSession_fields:
  "isTracking (saveSession s tr) = isTracking tr"
  "currentLanguage (saveSession s tr) = currentLanguage tr"
  "currentFileName (saveSession s tr) = currentFileName tr"
  "sessionStartTime (saveSession s tr) = sessionStartTime tr"
  "lastActivityTime (saveSession s tr) = lastActivityTime tr"
  by (simp_all add: saveSession_def getDailyStats_def alloc_def modify_def saveDailyStats_def Let_def
      split: option.splits prod.splits)

lemma saveSession_storeOf:
  "storeOf tr = storeOf tr' \<Longrightarrow> storeOf (saveSession s tr) = storeOf (saveSession s tr')"
  by (simp add: storeOf_def saveSession_def getDailyStats_def alloc_def modify_def saveDailyStats_def Let_def
      split: option.splits prod.splits)

lemma recordActivities_extend:
  "isTracking tr \<Longrightarrow> docLanguageId doc = currentLanguage tr \<Longrightarrow> docFileName doc = currentFileName tr
   \<Longrightarrow> gapsWithin (lastActivityTime tr) ts
   \<Longrightarrow> recordActivities doc ts tr = tr\<lparr>lastActivityTime := last (lastActivityTime tr # ts)\<rparr>"
proof (induction ts arbitrary: tr)
  case Nil
  then show ?case by simp
next
  case (Cons t ts)
  have step: "recordActivity t doc tr = tr\<lparr>lastActivityTime := t\<rparr>"
    using Cons.prems by (simp add: recordActivity_def)
  have "recordActivities doc ts (tr\<lparr>lastActivityTime := t\<rparr>)
        = tr\<lparr>lastActivityTime := t\<rparr>\<lparr>lastActivityTime := last (t # ts)\<rparr>"
    using Cons.prems Cons.IH [of "tr\<lparr>lastActivityTime := t\<rparr>"] by simp
  with step show ?case by simp
qed

lemma storedSessions_saveSession_fresh:
  "globalState tr = [] \<Longrightarrow> storedSessions (saveSession s tr) = [s]"
  by (simp add: storedSessions_def saveSession_def getDailyStats_def alloc_def modify_def
      saveDailyStats_def deref_def Let_def)

lemma storedSessions_storeOf:
  "storeOf tr = storeOf tr' \<Longrightarrow> storedSessions tr = storedSessions tr'"
  by (simp add: storeOf_def storedSessions_def deref_def)


lemma endCurrentSession_tracking:
  assumes "isTracking tr"
  shows "\<not> isTracking (endCurrentSession tr)"
    and "storeOf (endCurrentSession tr) =
         storeOf (if (lastActivityTime tr - sessionStartTime tr) div 1000 \<ge> MIN_SESSION_SECONDS
                  then saveSession \<lparr>startTime = sessionStartTime tr, endTime = lastActivityTime tr,
                          languageId = currentLanguage tr, fileName = currentFileName tr,
                          durationSeconds = (lastActivityTime tr - sessionStartTime tr) div 1000\<rparr> tr
                  else tr)"
  using assms by (simp_all add: endCurrentSession_def Let_def)

lemma recordActivities_from_idle:
  assumes "\<not> isTracking tr0" and "gapsWithin t0 ts"
  shows "recordActivities doc (t0 # ts) tr0 = (startSession t0 doc tr0)\<lparr>lastActivityTime := last (t0 # ts)\<rparr>"
proof -
  have a: "recordActivity t0 doc tr0 = startSession t0 doc tr0"
    using assms(1) by (simp add: recordActivity_def)
  have b: "isTracking (startSession t0 doc tr0)" "docLanguageId doc = currentLanguage (startSession t0 doc tr0)"
    "docFileName doc = currentFileName (startSession t0 doc tr0)"
    "lastActivityTime (startSession t0 doc tr0) = t0"
    by (simp_all add: startSession_def)
  have c: "gapsWithin (lastActivityTime (startSession t0 doc tr0)) ts"
    using assms(2) b(4) by simp
  show ?thesis
    using recordActivities_extend [OF b(1-3) c] a b(4) by simp
qed

text \<open>
  Claim C1. Edits of one document (constant language and file) arriving at an idle tracker, every
  gap between consecutive edits at most \<open>IDLE_TIMEOUT_MS\<close>, close no session while they arrive:
  the open session starts at the first edit and its last activity is the last edit. Ending the
  session then hands exactly that one session, from the first to the last edit, to the store,
  provided it lasts at least \<open>MIN_SESSION_SECONDS\<close>; with a store that was empty, it is the only
  session stored. A heartbeat later than \<open>IDLE_TIMEOUT_MS\<close> after the last edit ends the session
  in this way.
\<close>

theorem single_session:
  assumes "\<not> isTracking tr0" and "gapsWithin t0 ts"
  shows "let lastPing = last (t0 # ts);
             secs = (lastPing - t0) div 1000;
             session = \<lparr>startTime = t0, endTime = lastPing, languageId = docLanguageId doc,
                        fileName = docFileName doc, durationSeconds = secs\<rparr>;
             tracked = recordActivities doc (t0 # ts) tr0;
             closed = endCurrentSession tracked
         in isTracking tracked \<and> sessionStartTime tracked = t0 \<and> lastActivityTime tracked = lastPing
            \<and> storeOf tracked = storeOf tr0
            \<and> \<not> isTracking closed
            \<and> storeOf closed = storeOf (if secs \<ge> MIN_SESSION_SECONDS then saveSession session tr0 else tr0)
            \<and> (globalState tr0 = [] \<longrightarrow>
                 storedSessions closed = (if secs \<ge> MIN_SESSION_SECONDS then [session] else []))
            \<and> (\<forall>now. now - lastPing > IDLE_TIMEOUT_MS \<longrightarrow> heartbeat now tracked = closed)"
proof -
  define lastPing where "lastPing = last (t0 # ts)"
  define secs where "secs = (lastPing - t0) div 1000"
  define session where "session = \<lparr>startTime = t0, endTime = lastPing, languageId = docLanguageId doc,
                        fileName = docFileName doc, durationSeconds = secs\<rparr>"
  define tracked where "tracked = recordActivities doc (t0 # ts) tr0"
  define closed where "closed = endCurrentSession tracked"
  have "tracked = (startSession t0 doc tr0)\<lparr>lastActivityTime := lastPing\<rparr>"
    unfolding tracked_def lastPing_def using assms by (rule recordActivities_from_idle)
  then have f: "isTracking tracked" "sessionStartTime tracked = t0" "lastActivityTime tracked = lastPing"
    "currentLanguage tracked = docLanguageId doc" "currentFileName tracked = docFileName doc"
    and st: "storeOf tracked = storeOf tr0"
    by (simp_all add: startSession_def)
  have c1: "\<not> isTracking closed"
    unfolding closed_def using f(1) by (rule endCurrentSession_tracking)
  have c2: "storeOf closed = storeOf (if secs \<ge> MIN_SESSION_SECONDS then saveSession session tr0 else tr0)"
  proof (cases "secs \<ge> MIN_SESSION_SECONDS")
    case True
    have "storeOf closed = storeOf (saveSession session tracked)"
      unfolding closed_def endCurrentSession_tracking(2) [OF f(1)]
      using True by (simp add: f secs_def session_def)
    also have "\<dots> = storeOf (saveSession session tr0)"
      by (rule saveSession_storeOf [OF st])
    finally show ?thesis using True by simp
  next
    case False
    have "storeOf closed = storeOf tracked"
      unfolding closed_def endCurrentSession_tracking(2) [OF f(1)]
      using False by (simp add: f secs_def)
    with st False show ?thesis by simp
  qed
  have c3: "globalState tr0 = [] \<longrightarrow>
      storedSessions closed = (if secs \<ge> MIN_SESSION_SECONDS then [session] else [])"
  proof
    assume e: "globalState tr0 = []"
    show "storedSessions closed = (if secs \<ge> MIN_SESSION_SECONDS then [session] else [])"
    proof (cases "secs \<ge> MIN_SESSION_SECONDS")
      case True
      then have "storedSessions closed = storedSessions (saveSession session tr0)"
        using storedSessions_storeOf [OF c2] by simp
      with True e show ?thesis by (simp add: storedSessions_saveSession_fresh)
    next
      case False
      then have "storedSessions closed = storedSessions tr0"
        using storedSessions_storeOf [OF c2] by simp
      with False e show ?thesis by (simp add: storedSessions_def)
    qed
  qed
  have c4: "\<forall>now. now - lastPing > IDLE_TIMEOUT_MS \<longrightarrow> heartbeat now tracked = closed"
    using f(1,3) by (simp add: heartbeat_def closed_def)
  show ?thesis
    unfolding Let_def lastPing_def [symmetric] secs_def [symmetric] session_def [symmetric]
      tracked_def [symmetric] closed_def [symmetric]
    using f(1-3) st c1 c2 c3 c4 by (intro conjI)
qed


theorem single_session_witness:
  "\<not> isTracking newTracker \<and> gapsWithin 0 [120000, 250000] \<and> globalState newTracker = []
   \<and> storedSessions (endCurrentSession (recordActivities
         \<lparr>docLanguageId = ''go'', docFileName = ''a.go''\<rparr> [0, 120000, 250000] newTracker))
       = [\<lparr>startTime = 0, endTime = 250000, languageId = ''go'', fileName = ''a.go'',
           durationSeconds = 250\<rparr>]"
  using single_session [of newTracker 0 "[120000, 250000]" "\<lparr>docLanguageId = ''go'', docFileName = ''a.go''\<rparr>"]
  by (simp add: newTracker_def IDLE_TIMEOUT_MS_def MIN_SESSION_SECONDS_def Let_def)

subsection \<open>Formatting a duration\<close>

text \<open>
  Claim C8, as the code has it. For a duration of \<open>s \<ge> 0\<close> seconds, \<open>formatDuration\<close> writes
  the seconds alone below one minute, minutes and seconds below one hour, and hours and minutes
  (the left-over seconds dropped) from one hour on; the unit labels are the Chinese words of the
  source and not the letters s, m and h.
\<close>

theorem formatDuration_cases:
  assumes "0 \<le> s"
  shows "(s < 60 \<longrightarrow> formatDuration s = numberToString s @ unitSeconds)
       \<and> (60 \<le> s \<and> s < 3600 \<longrightarrow>
            formatDuration s = numberToString (s div 60) @ unitMinutes @ numberToString (s mod 60) @ unitSeconds)
       \<and> (3600 \<le> s \<longrightarrow>
            formatDuration s = numberToString (s div 3600) @ unitHours
                               @ numberToString (s mod 3600 div 60) @ unitMinutes)"
proof -
  have m: "s smod 3600 = s mod 3600" "s smod 60 = s mod 60"
    using assms by (simp_all add: signed_modulo_int_def sgn_if)
  have a: "s < 60 \<Longrightarrow> s div 3600 = 0 \<and> s mod 3600 div 60 = 0 \<and> s mod 60 = s"
    using assms by simp
  have b: "60 \<le> s \<Longrightarrow> s < 3600 \<Longrightarrow> s div 3600 = 0 \<and> s mod 3600 = s \<and> 0 < s div 60"
    using assms by (simp add: pos_imp_zdiv_pos_iff)
  have c: "3600 \<le> s \<Longrightarrow> 0 < s div 3600"
    by (simp add: pos_imp_zdiv_pos_iff)
  show ?thesis
    using a b c by (auto simp add: formatDuration_def Let_def m)
qed

theorem formatDuration_cases_witness:
  "formatDuration 45 = ''45'' @ unitSeconds
   \<and> formatDuration 125 = ''2'' @ unitMinutes @ ''5'' @ unitSeconds
   \<and> formatDuration 3661 = ''1'' @ unitHours @ ''1'' @ unitMinutes"
  using formatDuration_cases [of 45] formatDuration_cases [of 125] formatDuration_cases [of 3661]
  by (simp add: numberToString_def natToString.simps digitChar_def)

text \<open>The three example durations do not produce the strings with the letters s, m and h.\<close>

theorem formatDuration_counterexample:
  "formatDuration 45 \<noteq> ''45s'' \<and> formatDuration 125 \<noteq> ''2m5s'' \<and> formatDuration 3661 \<noteq> ''1h1m''"
  by (simp add: formatDuration_def Let_def signed_modulo_int_def numberToString_def natToString.simps
      digitChar_def unitSeconds_def unitMinutes_def unitHours_def)

subsection \<open>An idle gap splits the session\<close>

lemma close_window:
  assumes "isTracking tr" and "gapsWithin (lastActivityTime tr) ts"
    and "docLanguageId doc = currentLanguage tr" and "docFileName doc = currentFileName tr"
    and "storeOf tr = storeOf base"
  shows "storeOf (endCurrentSession (recordActivities doc ts tr)) =
         storeOf (if (last (lastActivityTime tr # ts) - sessionStartTime tr) div 1000 \<ge> MIN_SESSION_SECONDS
                  then saveSession \<lparr>startTime = sessionStartTime tr, endTime = last (lastActivityTime tr # ts),
                          languageId = docLanguageId doc, fileName = docFileName doc,
                          durationSeconds = (last (lastActivityTime tr # ts) - sessionStartTime tr) div 1000\<rparr> base
                  else base)"
proof -
  define w where "w = tr\<lparr>lastActivityTime := last (lastActivityTime tr # ts)\<rparr>"
  have r: "recordActivities doc ts tr = w"
    unfolding w_def using assms(1,3,4,2) by (rule recordActivities_extend)
  have f: "isTracking w" "sessionStartTime w = sessionStartTime tr"
    "lastActivityTime w = last (lastActivityTime tr # ts)"
    "currentLanguage w = docLanguageId doc" "currentFileName w = docFileName doc"
    and st: "storeOf w = storeOf base"
    using assms by (simp_all add: w_def)
  show ?thesis
    unfolding r endCurrentSession_tracking(2) [OF f(1)] f
    using st saveSession_storeOf [OF st] by simp
qed

lemma storageKey_inj [simp]: "storageKey a = storageKey b \<longleftrightarrow> a = b"
  by (simp add: storageKey_def)

lemma storedSessions_two_fresh:
  "globalState tr = [] \<Longrightarrow> storedSessions (saveSession s2 (saveSession s1 tr)) = [s1, s2]"
  by (simp add: storedSessions_def saveSession_def getDailyStats_def alloc_def modify_def
      saveDailyStats_def deref_def Let_def nth_append)

text \<open>
  Claim C2. Edits of one document arrive at an idle tracker; one gap is strictly greater than
  \<open>IDLE_TIMEOUT_MS\<close> and all others are within it. The edit after the gap closes the current
  session with the time of the edit before the gap as its end (not the time of the new edit) and
  opens a new session that starts at the edit after the gap. So two sessions result, the first
  from the first edit to the edit before the gap, the second from the edit after the gap to the
  last edit; each is stored when it lasts at least \<open>MIN_SESSION_SECONDS\<close>.
\<close>

theorem idle_gap_splits:
  assumes "\<not> isTracking tr0" and "gapsWithin p0 ps"
    and "q - last (p0 # ps) > IDLE_TIMEOUT_MS" and "gapsWithin q qs"
  shows "let preGap = last (p0 # ps);
             s1 = \<lparr>startTime = p0, endTime = preGap, languageId = docLanguageId doc,
                   fileName = docFileName doc, durationSeconds = (preGap - p0) div 1000\<rparr>;
             s2 = \<lparr>startTime = q, endTime = last (q # qs), languageId = docLanguageId doc,
                   fileName = docFileName doc, durationSeconds = (last (q # qs) - q) div 1000\<rparr>;
             afterGap = recordActivity q doc (recordActivities doc (p0 # ps) tr0);
             closed = endCurrentSession (recordActivities doc qs afterGap);
             tr1 = (if durationSeconds s1 \<ge> MIN_SESSION_SECONDS then saveSession s1 tr0 else tr0);
             tr2 = (if durationSeconds s2 \<ge> MIN_SESSION_SECONDS then saveSession s2 tr1 else tr1)
         in storeOf afterGap = storeOf tr1
            \<and> isTracking afterGap \<and> sessionStartTime afterGap = q \<and> lastActivityTime afterGap = q
            \<and> storeOf closed = storeOf tr2
            \<and> (globalState tr0 = [] \<longrightarrow>
                 storedSessions closed = filter (\<lambda>s. durationSeconds s \<ge> MIN_SESSION_SECONDS) [s1, s2])"
proof -
  define preGap where "preGap = last (p0 # ps)"
  define s1 where "s1 = \<lparr>startTime = p0, endTime = preGap, languageId = docLanguageId doc,
                   fileName = docFileName doc, durationSeconds = (preGap - p0) div 1000\<rparr>"
  define s2 where "s2 = \<lparr>startTime = q, endTime = last (q # qs), languageId = docLanguageId doc,
                   fileName = docFileName doc, durationSeconds = (last (q # qs) - q) div 1000\<rparr>"
  define beforeGap where "beforeGap = recordActivities doc (p0 # ps) tr0"
  define afterGap where "afterGap = recordActivity q doc beforeGap"
  define closed where "closed = endCurrentSession (recordActivities doc qs afterGap)"
  define tr1 where "tr1 = (if durationSeconds s1 \<ge> MIN_SESSION_SECONDS then saveSession s1 tr0 else tr0)"
  define tr2 where "tr2 = (if durationSeconds s2 \<ge> MIN_SESSION_SECONDS then saveSession s2 tr1 else tr1)"
  have "beforeGap = (startSession p0 doc tr0)\<lparr>lastActivityTime := preGap\<rparr>"
    unfolding beforeGap_def preGap_def using assms(1,2) by (rule recordActivities_from_idle)
  then have b: "isTracking beforeGap" "sessionStartTime beforeGap = p0" "lastActivityTime beforeGap = preGap"
    "currentLanguage beforeGap = docLanguageId doc" "currentFileName beforeGap = docFileName doc"
    and bst: "storeOf beforeGap = storeOf tr0"
    by (simp_all add: startSession_def)
  have ag: "afterGap = startSession q doc (endCurrentSession beforeGap)"
    using b assms(3) by (simp add: afterGap_def recordActivity_def preGap_def)
  have "storeOf (endCurrentSession beforeGap) = storeOf tr1"
    using close_window [of beforeGap "[]" doc tr0] b bst
    by (simp add: tr1_def s1_def)
  then have a1: "storeOf afterGap = storeOf tr1"
    by (simp add: ag startSession_def)
  have a: "isTracking afterGap" "sessionStartTime afterGap = q" "lastActivityTime afterGap = q"
    "currentLanguage afterGap = docLanguageId doc" "currentFileName afterGap = docFileName doc"
    by (simp_all add: ag startSession_def)
  have c: "storeOf closed = storeOf tr2"
    using close_window [of afterGap qs doc tr1] a a1 assms(4)
    by (simp add: closed_def tr2_def s2_def)
  have d: "globalState tr0 = [] \<longrightarrow>
      storedSessions closed = filter (\<lambda>s. durationSeconds s \<ge> MIN_SESSION_SECONDS) [s1, s2]"
  proof
    assume e: "globalState tr0 = []"
    have "storedSessions closed = storedSessions tr2"
      using c by (rule storedSessions_storeOf)
    also have "\<dots> = filter (\<lambda>s. durationSeconds s \<ge> MIN_SESSION_SECONDS) [s1, s2]"
      using e by (simp add: tr2_def tr1_def storedSessions_two_fresh storedSessions_saveSession_fresh)
        (simp add: storedSessions_def)
    finally show "storedSessions closed = filter (\<lambda>s. durationSeconds s \<ge> MIN_SESSION_SECONDS) [s1, s2]" .
  qed
  show ?thesis
    unfolding Let_def preGap_def [symmetric] s1_def [symmetric] s2_def [symmetric]
      beforeGap_def [symmetric] afterGap_def [symmetric] closed_def [symmetric]
      tr1_def [symmetric] tr2_def [symmetric]
    using a1 a(1-3) c d by (intro conjI)
qed

theorem idle_gap_splits_witness:
  "\<not> isTracking newTracker \<and> gapsWithin 0 [60000] \<and> 400000 - last [0, 60000] > IDLE_TIMEOUT_MS
   \<and> gapsWithin 400000 [430000]
   \<and> storedSessions (endCurrentSession (recordActivities
         \<lparr>docLanguageId = ''go'', docFileName = ''a.go''\<rparr> [0, 60000, 400000, 430000] newTracker))
       = [\<lparr>startTime = 0, endTime = 60000, languageId = ''go'', fileName = ''a.go'', durationSeconds = 60\<rparr>,
          \<lparr>startTime = 400000, endTime = 430000, languageId = ''go'', fileName = ''a.go'',
            durationSeconds = 30\<rparr>]"
  using idle_gap_splits [of newTracker 0 "[60000]" 400000 "[430000]"
      "\<lparr>docLanguageId = ''go'', docFileName = ''a.go''\<rparr>"]
  by (simp add: newTracker_def IDLE_TIMEOUT_MS_def MIN_SESSION_SECONDS_def Let_def)

subsection \<open>The totals of an aggregate\<close>

lemma sum_update:
  "sum_list (map snd (AList.update k v ls)) =
   sum_list (map snd ls) - (case map_of ls k of None \<Rightarrow> 0 | Some old \<Rightarrow> old) + (v::int)"
  by (induction ls) auto

lemma sum_addLanguageSeconds:
  "sum_list (map snd (addLanguageSeconds k n ls)) = sum_list (map snd ls) + n"
  by (auto simp add: addLanguageSeconds_def Let_def sum_update AList.update_conv' split: option.splits)

lemma consistent_addSession: "consistent s \<Longrightarrow> consistent (addSession session s)"
  by (simp add: consistent_def addSession_def sum_addLanguageSeconds)

lemma consistent_new: "consistent \<lparr>date = d, totalSeconds = 0, languageStats = [], sessions = []\<rparr>"
  by (simp add: consistent_def)

lemma saveSession_stored:
  assumes "map_of (globalState tr) (storageKey (getDateKey (startTime s))) = Some a"
    and "a < length (objects tr)"
  shows "saveSession s tr = tr\<lparr>objects := (objects tr)[a := addSession s (objects tr ! a)]\<rparr>"
  using assms
  by (simp add: saveSession_def getDailyStats_def modify_def saveDailyStats_def Let_def addSession_def
      AList.update_triv)

lemma update_absent: "k \<notin> fst ` set al \<Longrightarrow> AList.update k v al = al @ [(k, v)]"
  by (induction al) auto

lemma saveSession_new:
  assumes "map_of (globalState tr) (storageKey (getDateKey (startTime s))) = None"
  shows "saveSession s tr =
     tr\<lparr>objects := objects tr @ [addSession s \<lparr>date = getDateKey (startTime s), totalSeconds = 0,
                                          languageStats = [], sessions = []\<rparr>],
        globalState := globalState tr @ [(storageKey (getDateKey (startTime s)), length (objects tr))]\<rparr>"
proof -
  have "storageKey (getDateKey (startTime s)) \<notin> fst ` set (globalState tr)"
    using assms by (simp add: map_of_eq_None_iff)
  then show ?thesis
    using assms
    by (simp add: saveSession_def getDailyStats_def alloc_def modify_def saveDailyStats_def Let_def
        addSession_def update_absent)
qed

lemma storeConsistent_saveSession:
  assumes "storeConsistent tr"
  shows "storeConsistent (saveSession s tr)"
proof (cases "map_of (globalState tr) (storageKey (getDateKey (startTime s)))")
  case None
  show ?thesis
    unfolding saveSession_new [OF None]
    using assms
    by (auto simp add: storeConsistent_def deref_def nth_append consistent_addSession consistent_new)
next
  case (Some a)
  then have "(storageKey (getDateKey (startTime s)), a) \<in> set (globalState tr)"
    by (rule map_of_SomeD)
  with assms have a: "a < length (objects tr)"
    by (auto simp add: storeConsistent_def)
  have "consistent ((objects tr)[a := addSession s (objects tr ! a)] ! b)"
    if "(k, b) \<in> set (globalState tr)" for k b
  proof -
    from that assms have b: "b < length (objects tr)" "consistent (objects tr ! b)"
      by (auto simp add: storeConsistent_def deref_def)
    show ?thesis
    proof (cases "b = a")
      case True
      with b show ?thesis by (simp add: consistent_addSession)
    next
      case False
      with b show ?thesis by simp
    qed
  qed
  moreover have "b < length (objects tr)" if "(k, b) \<in> set (globalState tr)" for k b
    using that assms by (auto simp add: storeConsistent_def)
  ultimately show ?thesis
    unfolding saveSession_stored [OF Some a]
    by (auto simp add: storeConsistent_def deref_def)
qed

lemma storeConsistent_saveSessions:
  "storeConsistent tr \<Longrightarrow> storeConsistent (saveSessions ss tr)"
  by (induction ss arbitrary: tr) (simp_all add: storeConsistent_saveSession)

lemma storeConsistent_newTracker: "storeConsistent newTracker"
  by (simp add: storeConsistent_def newTracker_def)

lemma getDailyStats_consistent:
  assumes "storeConsistent tr"
  shows "consistent (deref (snd (getDailyStats d tr)) (fst (getDailyStats d tr)))"
proof (cases "map_of (globalState tr) (storageKey d)")
  case None
  then show ?thesis
    by (simp add: getDailyStats_def alloc_def deref_def consistent_new)
next
  case (Some a)
  then have "(storageKey d, a) \<in> set (globalState tr)"
    by (rule map_of_SomeD)
  with assms Some show ?thesis
    by (auto simp add: getDailyStats_def storeConsistent_def)
qed

text \<open>
  Claim C3. In every aggregate of a store that was built from the empty store by recording
  sessions, the total equals the sum of the per-language seconds and also the sum of the durations
  of the sessions of the aggregate; this holds for every aggregate that \<open>getDailyStats\<close> reads
  from such a store, and every \<open>saveSession\<close> preserves it.
\<close>

theorem totals_consistent:
  "(storeConsistent tr \<longrightarrow> storeConsistent (saveSession s tr))
   \<and> storeConsistent (saveSessions ss newTracker)
   \<and> consistent (deref (snd (getDailyStats d (saveSessions ss newTracker)))
                       (fst (getDailyStats d (saveSessions ss newTracker))))"
  using storeConsistent_saveSession [of tr s]
    storeConsistent_saveSessions [OF storeConsistent_newTracker, of ss]
    getDailyStats_consistent [OF storeConsistent_saveSessions [OF storeConsistent_newTracker], of d ss]
  by blast

lemma getDateKey_0: "getDateKey 0 = ''1970-01-01''" by code_simp



theorem totals_consistent_witness:
  "storeConsistent (saveSessions
       [\<lparr>startTime = 0, endTime = 120000, languageId = ''go'', fileName = ''a.go'', durationSeconds = 120\<rparr>]
       newTracker)
   \<and> globalState (saveSessions
       [\<lparr>startTime = 0, endTime = 120000, languageId = ''go'', fileName = ''a.go'', durationSeconds = 120\<rparr>]
       newTracker) = [(''editStats_1970-01-01'', 0)]
   \<and> storeConsistent (saveSession
       \<lparr>startTime = 500000, endTime = 530000, languageId = ''rust'', fileName = ''b.rs'', durationSeconds = 30\<rparr>
       (saveSessions
       [\<lparr>startTime = 0, endTime = 120000, languageId = ''go'', fileName = ''a.go'', durationSeconds = 120\<rparr>]
       newTracker))"
  using totals_consistent [of "saveSessions
       [\<lparr>startTime = 0, endTime = 120000, languageId = ''go'', fileName = ''a.go'', durationSeconds = 120\<rparr>]
       newTracker" "\<lparr>startTime = 500000, endTime = 530000, languageId = ''rust'', fileName = ''b.rs'', durationSeconds = 30\<rparr>"
       "[\<lparr>startTime = 0, endTime = 120000, languageId = ''go'', fileName = ''a.go'', durationSeconds = 120\<rparr>]"
       "''1970-01-01''"]
  by (simp add: saveSession_new newTracker_def getDateKey_0 storageKey_def)

subsection \<open>Clearing the store\<close>

lemma replaceWithEmpty_prefix: "replaceWithEmpty p (p @ d) = d"
proof (cases "p @ d")
  case Nil
  then show ?thesis by simp
next
  case (Cons c cs)
  have "startsWith (p @ d) p"
    by (simp add: startsWith_def)
  then have "replaceWithEmpty p (p @ d) = drop (length p) (p @ d)"
    unfolding Cons by simp
  then show ?thesis by simp
qed

lemma startsWith_storageKey:
  "startsWith key ''editStats_'' \<Longrightarrow> storageKey (replaceWithEmpty ''editStats_'' key) = key"
proof -
  assume "startsWith key ''editStats_''"
  then have "key = ''editStats_'' @ drop (length ''editStats_'') key"
    unfolding startsWith_def by (metis append_take_drop_id)
  then obtain d where k: "key = ''editStats_'' @ d" ..
  show ?thesis
    unfolding k storageKey_def replaceWithEmpty_prefix ..
qed

lemma startsWith_storageKey_iff [simp]: "startsWith (storageKey d) ''editStats_''"
  by (simp add: startsWith_def storageKey_def)

lemma globalState_clearDates:
  "globalState (clearDates ds tr) = filter (\<lambda>(k, a). k \<notin> storageKey ` set ds) (globalState tr)"
proof (induction ds arbitrary: tr)
  case Nil
  then show ?case by simp
next
  case (Cons d ds)
  show ?case
    by (simp add: Cons.IH clearDailyStats_def AList.delete_eq case_prod_unfold) (metis (lifting))
qed

lemma objects_clearDates [simp]: "objects (clearDates ds tr) = objects tr"
  by (induction ds arbitrary: tr) (simp_all add: clearDailyStats_def)

lemma stored_keys_cleared:
  assumes "(k, a) \<in> set (globalState tr)" and "startsWith k ''editStats_''"
  shows "k \<in> storageKey ` set (getAllStoredDates tr)"
proof -
  have "replaceWithEmpty ''editStats_'' k \<in> set (getAllStoredDates tr)"
    using assms by (force simp add: getAllStoredDates_def)
  then have "storageKey (replaceWithEmpty ''editStats_'' k) \<in> storageKey ` set (getAllStoredDates tr)"
    by (rule imageI)
  then show ?thesis
    using assms(2) by (simp add: startsWith_storageKey)
qed

lemma no_stats_key_left:
  "(k, a) \<in> set (globalState (clearAllStats tr)) \<Longrightarrow> \<not> startsWith k ''editStats_''"
  unfolding clearAllStats_def globalState_clearDates
  using stored_keys_cleared by auto

text \<open>
  Claim C10. After \<open>clearAllStats\<close> the store is empty: \<open>getAllStoredDates\<close> returns the empty
  list, the memento has no key for any date, and \<open>getDailyStats\<close> of any date (so also of every
  date that was stored before) returns the zero aggregate of that date: total \<open>0\<close>, no language
  entry, no session.
\<close>

theorem cleared_store_is_empty:
  "getAllStoredDates (clearAllStats tr) = []
   \<and> map_of (globalState (clearAllStats tr)) (storageKey d) = None
   \<and> deref (snd (getDailyStats d (clearAllStats tr))) (fst (getDailyStats d (clearAllStats tr)))
       = \<lparr>date = d, totalSeconds = 0, languageStats = [], sessions = []\<rparr>"
proof -
  have "filter (\<lambda>key. startsWith key ''editStats_'') (map fst (globalState (clearAllStats tr))) = []"
    using no_stats_key_left [of _ _ tr]
    by (auto simp add: filter_empty_conv)
  then have a: "getAllStoredDates (clearAllStats tr) = []"
    by (simp add: getAllStoredDates_def)
  have b: "map_of (globalState (clearAllStats tr)) (storageKey d) = None"
    using no_stats_key_left [of "storageKey d" _ tr]
    by (auto simp add: map_of_eq_None_iff)
  have c: "deref (snd (getDailyStats d (clearAllStats tr))) (fst (getDailyStats d (clearAllStats tr)))
       = \<lparr>date = d, totalSeconds = 0, languageStats = [], sessions = []\<rparr>"
    by (simp add: getDailyStats_def b alloc_def deref_def)
  from a b c show ?thesis by (intro conjI)
qed

subsection \<open>Reading the statistics\<close>

lemma getDailyStats_deref:
  "deref (snd (getDailyStats d tr)) (fst (getDailyStats d tr)) = persisted tr d"
  by (simp add: getDailyStats_def persisted_def alloc_def deref_def split: option.splits)

lemma getDailyStats_frame:
  "globalState (snd (getDailyStats d tr)) = globalState tr"
  "take (length (objects tr)) (objects (snd (getDailyStats d tr))) = objects tr"
  "length (objects tr) \<le> length (objects (snd (getDailyStats d tr)))"
  "isTracking (snd (getDailyStats d tr)) = isTracking tr"
  "currentLanguage (snd (getDailyStats d tr)) = currentLanguage tr"
  "sessionStartTime (snd (getDailyStats d tr)) = sessionStartTime tr"
  "lastActivityTime (snd (getDailyStats d tr)) = lastActivityTime tr"
  by (simp_all add: getDailyStats_def alloc_def split: option.splits)

lemma copy_fields:
  "\<lparr>date = date x, totalSeconds = totalSeconds x, languageStats = languageStats x, sessions = sessions x\<rparr>
   = (x :: DailyEditStats)"
  by simp

lemma getTodayStats_frame:
  assumes "isTracking tr"
  shows "length (objects tr) \<le> fst (getTodayStats now tr)"
    and "take (length (objects tr)) (objects (snd (getTodayStats now tr))) = objects tr"
    and "globalState (snd (getTodayStats now tr)) = globalState tr"
proof -
  define a where "a = fst (getDailyStats (getDateKey now) tr)"
  define tr1 where "tr1 = snd (getDailyStats (getDateKey now) tr)"
  have g: "getDailyStats (getDateKey now) tr = (a, tr1)"
    by (simp add: a_def tr1_def)
  have fr: "globalState tr1 = globalState tr" "take (length (objects tr)) (objects tr1) = objects tr"
    "length (objects tr) \<le> length (objects tr1)"
    unfolding tr1_def by (simp_all add: getDailyStats_frame)
  have t: "take (length (objects tr)) (xs @ ys) = objects tr" if "take (length (objects tr)) xs = objects tr"
    "length (objects tr) \<le> length xs" for xs ys :: "DailyEditStats list"
    using that by simp
  show "length (objects tr) \<le> fst (getTodayStats now tr)"
    and "take (length (objects tr)) (objects (snd (getTodayStats now tr))) = objects tr"
    and "globalState (snd (getTodayStats now tr)) = globalState tr"
    using fr t [of "objects tr1"] by (simp_all add: getTodayStats_def g alloc_def modify_def Let_def)
qed

text \<open>
  Claim C5, as the code has it. While a session is open, \<open>getTodayStats\<close> returns a new object
  that holds the persisted aggregate of today's key with the seconds of the open session added to
  the total and to the entry of the current language, provided these seconds reach
  \<open>MIN_SESSION_SECONDS\<close>. The seconds added are those from the start of the session to its last
  activity, \<open>(lastActivityTime - sessionStartTime) div 1000\<close>, and not those up to the clock value
  \<open>now\<close>. Nothing is written to the store: the memento and every object that existed before are
  unchanged.
\<close>

theorem today_snapshot:
  assumes "isTracking tr"
  shows "let current = (lastActivityTime tr - sessionStartTime tr) div 1000;
             stored = persisted tr (getDateKey now);
             stats = fst (getTodayStats now tr);
             tr' = snd (getTodayStats now tr)
         in deref tr' stats =
              (if current \<ge> MIN_SESSION_SECONDS
               then stored\<lparr>totalSeconds := totalSeconds stored + current,
                      languageStats := addLanguageSeconds (currentLanguage tr) current (languageStats stored)\<rparr>
               else stored)
            \<and> length (objects tr) \<le> stats
            \<and> take (length (objects tr)) (objects tr') = objects tr
            \<and> globalState tr' = globalState tr"
proof -
  define g where "g = getDailyStats (getDateKey now) tr"
  define tr1 where "tr1 = snd g"
  define stored where "stored = persisted tr (getDateKey now)"
  define n where "n = length (objects tr1)"
  have g: "getDailyStats (getDateKey now) tr = (fst g, tr1)"
    by (simp add: g_def tr1_def)
  have d: "deref tr1 (fst g) = stored"
    unfolding tr1_def g_def stored_def by (rule getDailyStats_deref)
  have fr: "globalState tr1 = globalState tr" "take (length (objects tr)) (objects tr1) = objects tr"
    "length (objects tr) \<le> n" "isTracking tr1" "currentLanguage tr1 = currentLanguage tr"
    "sessionStartTime tr1 = sessionStartTime tr" "lastActivityTime tr1 = lastActivityTime tr"
    unfolding tr1_def g_def n_def using assms by (simp_all add: getDailyStats_frame)
  have t: "take (length (objects tr)) (xs @ ys) = objects tr" if "take (length (objects tr)) xs = objects tr"
    "length (objects tr) \<le> length xs" for xs ys :: "DailyEditStats list"
    using that by simp
  show ?thesis
    unfolding Let_def stored_def [symmetric]
    using fr t [of "objects tr1"]
    by (simp add: getTodayStats_def g d [unfolded deref_def] copy_fields alloc_def modify_def deref_def
        Let_def n_def)
qed


theorem today_snapshot_witness:
  "isTracking (recordActivities \<lparr>docLanguageId = ''go'', docFileName = ''a.go''\<rparr> [0, 30000] newTracker)
   \<and> deref (snd (getTodayStats 60000
          (recordActivities \<lparr>docLanguageId = ''go'', docFileName = ''a.go''\<rparr> [0, 30000] newTracker)))
        (fst (getTodayStats 60000
          (recordActivities \<lparr>docLanguageId = ''go'', docFileName = ''a.go''\<rparr> [0, 30000] newTracker)))
       = \<lparr>date = getDateKey 60000, totalSeconds = 30, languageStats = [(''go'', 30)], sessions = []\<rparr>
   \<and> globalState (snd (getTodayStats 60000
          (recordActivities \<lparr>docLanguageId = ''go'', docFileName = ''a.go''\<rparr> [0, 30000] newTracker))) = []"
  using today_snapshot [of "recordActivities \<lparr>docLanguageId = ''go'', docFileName = ''a.go''\<rparr> [0, 30000] newTracker" 60000]
  by (simp add: Let_def recordActivity_def startSession_def newTracker_def IDLE_TIMEOUT_MS_def
      MIN_SESSION_SECONDS_def persisted_def addLanguageSeconds_def)

text \<open>
  With the clock value in place of the last activity the statement fails: after one edit at time
  \<open>0\<close> and a reading at time \<open>60000\<close>, sixty seconds have passed since the session started,
  but the total returned is not the persisted total plus sixty.
\<close>

theorem today_snapshot_counterexample:
  "isTracking (recordActivity 0 \<lparr>docLanguageId = ''go'', docFileName = ''a.go''\<rparr> newTracker)
   \<and> MIN_SESSION_SECONDS
       \<le> (60000 - sessionStartTime (recordActivity 0 \<lparr>docLanguageId = ''go'', docFileName = ''a.go''\<rparr> newTracker))
          div 1000
   \<and> totalSeconds
        (deref (snd (getTodayStats 60000
                  (recordActivity 0 \<lparr>docLanguageId = ''go'', docFileName = ''a.go''\<rparr> newTracker)))
          (fst (getTodayStats 60000
                  (recordActivity 0 \<lparr>docLanguageId = ''go'', docFileName = ''a.go''\<rparr> newTracker))))
       \<noteq> totalSeconds
            (persisted (recordActivity 0 \<lparr>docLanguageId = ''go'', docFileName = ''a.go''\<rparr> newTracker)
              (getDateKey 60000))
          + (60000 - sessionStartTime
                       (recordActivity 0 \<lparr>docLanguageId = ''go'', docFileName = ''a.go''\<rparr> newTracker))
            div 1000"
  by (simp add: recordActivity_def startSession_def newTracker_def MIN_SESSION_SECONDS_def
      getTodayStats_def getDailyStats_def alloc_def deref_def persisted_def Let_def)

lemma today_copy_is_private:
  assumes "isTracking tr" and "\<forall>(k, a) \<in> set (globalState tr). a < length (objects tr)"
  shows "persisted (modify (fst (getTodayStats now tr)) f (snd (getTodayStats now tr))) d = persisted tr d"
proof -
  define stats where "stats = fst (getTodayStats now tr)"
  define tr' where "tr' = snd (getTodayStats now tr)"
  have fr: "length (objects tr) \<le> stats" "take (length (objects tr)) (objects tr') = objects tr"
    "globalState tr' = globalState tr"
    using getTodayStats_frame [OF assms(1), of now] by (simp_all add: stats_def tr'_def)
  have "objects (modify stats f tr') ! a = objects tr ! a" if "a < length (objects tr)" for a
  proof -
    have "objects (modify stats f tr') ! a = objects tr' ! a"
      using that fr(1) by (simp add: modify_def)
    also have "\<dots> = take (length (objects tr)) (objects tr') ! a"
      using that by simp
    finally show ?thesis by (simp add: fr(2))
  qed
  moreover have "a < length (objects tr)" if "map_of (globalState tr) (storageKey d) = Some a" for a
    using assms(2) map_of_SomeD [OF that] by auto
  moreover have "globalState (modify stats f tr') = globalState tr"
    by (simp add: modify_def fr(3))
  ultimately show ?thesis
    unfolding stats_def [symmetric] tr'_def [symmetric]
    by (simp add: persisted_def deref_def split: option.splits)
qed

text \<open>
  Claim C6 at a failing input. The store holds one session of \<open>120\<close> seconds for 1970-01-01.
  \<open>getDailyStats\<close> of that day returns the stored object itself (address \<open>0\<close>) and leaves the
  tracker as it is; after the caller assigns \<open>999\<close> to \<open>totalSeconds\<close> of the object it was
  handed, the next \<open>getDailyStats\<close> of the same day reads \<open>999\<close> and not the \<open>120\<close> that was
  stored. An assignment to an entry of \<open>languageStats\<close> and a push to \<open>sessions\<close> show in the
  next read in the same way. (\<open>getTodayStats\<close> does copy: \<open>today_copy_is_private\<close>.)
\<close>

theorem stored_aggregate_is_shared:
  "getDailyStats ''1970-01-01'' (saveSession
     \<lparr>startTime = 0, endTime = 120000, languageId = ''go'', fileName = ''a.go'', durationSeconds = 120\<rparr>
     newTracker)
   = (0, saveSession
     \<lparr>startTime = 0, endTime = 120000, languageId = ''go'', fileName = ''a.go'', durationSeconds = 120\<rparr>
     newTracker)
   \<and> deref (saveSession
        \<lparr>startTime = 0, endTime = 120000, languageId = ''go'', fileName = ''a.go'', durationSeconds = 120\<rparr>
        newTracker) 0
     = \<lparr>date = ''1970-01-01'', totalSeconds = 120, languageStats = [(''go'', 120)],
        sessions = [\<lparr>startTime = 0, endTime = 120000, languageId = ''go'', fileName = ''a.go'',
                     durationSeconds = 120\<rparr>]\<rparr>
   \<and> totalSeconds (deref
        (snd (getDailyStats ''1970-01-01'' (assignTotalSeconds 0 999 (saveSession
           \<lparr>startTime = 0, endTime = 120000, languageId = ''go'', fileName = ''a.go'', durationSeconds = 120\<rparr>
           newTracker))))
        (fst (getDailyStats ''1970-01-01'' (assignTotalSeconds 0 999 (saveSession
           \<lparr>startTime = 0, endTime = 120000, languageId = ''go'', fileName = ''a.go'', durationSeconds = 120\<rparr>
           newTracker))))) = 999
   \<and> languageStats (deref
        (snd (getDailyStats ''1970-01-01'' (assignLanguageSeconds 0 ''go'' 7 (saveSession
           \<lparr>startTime = 0, endTime = 120000, languageId = ''go'', fileName = ''a.go'', durationSeconds = 120\<rparr>
           newTracker))))
        (fst (getDailyStats ''1970-01-01'' (assignLanguageSeconds 0 ''go'' 7 (saveSession
           \<lparr>startTime = 0, endTime = 120000, languageId = ''go'', fileName = ''a.go'', durationSeconds = 120\<rparr>
           newTracker))))) = [(''go'', 7)]
   \<and> length (sessions (deref
        (snd (getDailyStats ''1970-01-01'' (pushSession 0
           \<lparr>startTime = 5, endTime = 6, languageId = ''c'', fileName = ''x.c'', durationSeconds = 0\<rparr>
           (saveSession
           \<lparr>startTime = 0, endTime = 120000, languageId = ''go'', fileName = ''a.go'', durationSeconds = 120\<rparr>
           newTracker))))
        (fst (getDailyStats ''1970-01-01'' (pushSession 0
           \<lparr>startTime = 5, endTime = 6, languageId = ''c'', fileName = ''x.c'', durationSeconds = 0\<rparr>
           (saveSession
           \<lparr>startTime = 0, endTime = 120000, languageId = ''go'', fileName = ''a.go'', durationSeconds = 120\<rparr>
           newTracker)))))) = 2"
  by (simp add: saveSession_new newTracker_def getDateKey_0 getDailyStats_def
      assignTotalSeconds_def assignLanguageSeconds_def pushSession_def modify_def deref_def
      addSession_def addLanguageSeconds_def)

subsection \<open>Language shares\<close>

lemma insertBy_key:
  assumes "\<And>a b. notPositive (cmp a b) \<longleftrightarrow> f a \<le> f b"
  shows "insertBy cmp x xs = insort_key f x xs"
  by (induction xs) (simp_all add: assms)

lemma arraySort_key:
  assumes "\<And>a b. notPositive (cmp a b) \<longleftrightarrow> f a \<le> f b"
  shows "arraySort cmp xs = sort_key f xs"
proof -
  have "insertBy cmp = insort_key f"
    by (intro ext insertBy_key assms)
  then show ?thesis
    by (simp add: arraySort_def sort_key_def)
qed

lemma getLanguagePercentages_sort:
  "totalSeconds stats \<noteq> 0 \<Longrightarrow>
   getLanguagePercentages stats =
     sort_key (\<lambda>e. - seconds e) (map (languageShare (totalSeconds stats)) (languageStats stats))"
  unfolding getLanguagePercentages_def
  by (simp add: arraySort_key [of bySecondsDescending "\<lambda>e. - seconds e"] bySecondsDescending_def)

text \<open>
  Claim C4, as the code has it. \<open>getLanguagePercentages\<close> returns the empty list for an aggregate
  whose total is \<open>0\<close>. Otherwise it returns one entry for every entry of \<open>languageStats\<close>, also
  for a language with zero seconds, each with the display name of the language and the
  percentage \<open>seconds / totalSeconds * 100\<close>; the entries are in descending order of seconds, and
  entries with equal seconds keep the order they have in \<open>languageStats\<close> (not the order of their
  identifiers).
\<close>

theorem language_shares:
  "(totalSeconds stats = 0 \<longrightarrow> getLanguagePercentages stats = [])
   \<and> (totalSeconds stats \<noteq> 0 \<longrightarrow>
        mset (getLanguagePercentages stats)
          = mset (map (languageShare (totalSeconds stats)) (languageStats stats))
        \<and> sorted_wrt (\<lambda>a b. seconds a \<ge> seconds b) (getLanguagePercentages stats)
        \<and> (\<forall>n. filter (\<lambda>e. seconds e = n) (getLanguagePercentages stats)
                 = filter (\<lambda>e. seconds e = n)
                     (map (languageShare (totalSeconds stats)) (languageStats stats)))
        \<and> (\<forall>e \<in> set (getLanguagePercentages stats).
              percentage e = real_of_int (seconds e) / real_of_int (totalSeconds stats) * 100
              \<and> displayName e = getLanguageDisplayName (language e)
              \<and> (language e, seconds e) \<in> set (languageStats stats)))"
proof (intro conjI impI)
  assume "totalSeconds stats = 0"
  then show "getLanguagePercentages stats = []"
    by (simp add: getLanguagePercentages_def)
next
  assume t: "totalSeconds stats \<noteq> 0"
  note s = getLanguagePercentages_sort [OF t]
  show "mset (getLanguagePercentages stats)
          = mset (map (languageShare (totalSeconds stats)) (languageStats stats))"
    unfolding s by simp
  have "sorted (map (\<lambda>e. - seconds e) (getLanguagePercentages stats))"
    unfolding s by (rule sorted_sort_key)
  then show "sorted_wrt (\<lambda>a b. seconds a \<ge> seconds b) (getLanguagePercentages stats)"
    by (simp add: sorted_map sorted_wrt_iff_nth_less)
  show "\<forall>n. filter (\<lambda>e. seconds e = n) (getLanguagePercentages stats)
                 = filter (\<lambda>e. seconds e = n)
                     (map (languageShare (totalSeconds stats)) (languageStats stats))"
  proof
    fix n
    have "filter (\<lambda>e. - seconds e = - n) (getLanguagePercentages stats)
          = filter (\<lambda>e. - seconds e = - n) (map (languageShare (totalSeconds stats)) (languageStats stats))"
      unfolding s by (rule sort_key_stable)
    then show "filter (\<lambda>e. seconds e = n) (getLanguagePercentages stats)
                 = filter (\<lambda>e. seconds e = n)
                     (map (languageShare (totalSeconds stats)) (languageStats stats))"
      by simp
  qed
  show "\<forall>e \<in> set (getLanguagePercentages stats).
              percentage e = real_of_int (seconds e) / real_of_int (totalSeconds stats) * 100
              \<and> displayName e = getLanguageDisplayName (language e)
              \<and> (language e, seconds e) \<in> set (languageStats stats)"
    unfolding s by (auto simp add: languageShare_def)
qed

theorem language_shares_witness:
  "getLanguagePercentages
     \<lparr>date = ''2024-01-01'', totalSeconds = 150,
      languageStats = [(''rust'', 30), (''go'', 60), (''c'', 60)], sessions = []\<rparr>
   = [\<lparr>language = ''go'', displayName = ''Go'', seconds = 60, percentage = 40\<rparr>,
      \<lparr>language = ''c'', displayName = ''C'', seconds = 60, percentage = 40\<rparr>,
      \<lparr>language = ''rust'', displayName = ''Rust'', seconds = 30, percentage = 20\<rparr>]
   \<and> getLanguagePercentages
       \<lparr>date = ''2024-01-01'', totalSeconds = 0, languageStats = [(''go'', 0)], sessions = []\<rparr> = []"
  using language_shares [of "\<lparr>date = ''2024-01-01'', totalSeconds = 150,
      languageStats = [(''rust'', 30), (''go'', 60), (''c'', 60)], sessions = []\<rparr>"]
    language_shares [of "\<lparr>date = ''2024-01-01'', totalSeconds = 0, languageStats = [(''go'', 0)],
      sessions = []\<rparr>"]
  by (simp add: getLanguagePercentages_def arraySort_def bySecondsDescending_def languageShare_def
      getLanguageDisplayName_def LANGUAGE_DISPLAY_NAMES_def)

text \<open>
  Zero-second languages are not left out and ties are not ordered by identifier: the aggregate
  with \<open>go: 120, rust: 0\<close> gets two entries, and the tie of \<open>rust: 60, go: 60\<close> keeps \<open>rust\<close>
  before \<open>go\<close>.
\<close>

theorem language_shares_counterexample:
  "length (getLanguagePercentages
     \<lparr>date = ''2024-01-01'', totalSeconds = 120,
      languageStats = [(''go'', 120), (''rust'', 0)], sessions = []\<rparr>) = 2
   \<and> map language (getLanguagePercentages
     \<lparr>date = ''2024-01-01'', totalSeconds = 120,
      languageStats = [(''rust'', 60), (''go'', 60)], sessions = []\<rparr>) = [''rust'', ''go'']"
  by (simp add: getLanguagePercentages_def arraySort_def bySecondsDescending_def languageShare_def)

subsection \<open>Commit logs: no entry is skipped\<close>










subsection \<open>Commit logs: the hours of a day\<close>

lemma set_insertBy [simp]: "set (insertBy cmp x xs) = insert x (set xs)"
  by (induction xs) auto

lemma set_arraySort [simp]: "set (arraySort cmp xs) = set xs"
  by (induction xs) (simp_all add: arraySort_def)






















end
